theory Spec2Isabelle
  imports Main
begin

section \<open>Version strings and their comparison\<close>

text \<open>
  A Python \<open>str\<close> is modelled as a \<open>string\<close>, one \<open>char\<close> per code point (code points
  below 256). \<open>codepoints\<close> reads a string as the numbers Python compares.
\<close>

definition codepoints :: "string \<Rightarrow> nat list" where
  "codepoints s = map of_char s"

text \<open>
  Python orders sequences (tuples, strings) lexicographically: the first position where
  the two differ decides, and when one is a prefix of the other the shorter one is the
  smaller. \<open>seq_lt\<close> is the operator \<open><\<close>, \<open>seq_gt\<close> the operator \<open>>\<close>; the source uses both.
\<close>

fun seq_lt :: "'a::linorder list \<Rightarrow> 'a list \<Rightarrow> bool" where
  "seq_lt [] [] = False"
| "seq_lt [] (y # ys) = True"
| "seq_lt (x # xs) [] = False"
| "seq_lt (x # xs) (y # ys) = (if x = y then seq_lt xs ys else x < y)"

fun seq_gt :: "'a::linorder list \<Rightarrow> 'a list \<Rightarrow> bool" where
  "seq_gt [] [] = False"
| "seq_gt [] (y # ys) = False"
| "seq_gt (x # xs) [] = True"
| "seq_gt (x # xs) (y # ys) = (if x = y then seq_gt xs ys else x > y)"

text \<open>
  \<open>v.split('.')\<close>: the pieces between the dots. The result is never empty: the empty
  string splits into one empty piece, and a trailing dot leaves an empty last piece.
\<close>

fun split_dot :: "string \<Rightarrow> string list" where
  "split_dot [] = [[]]"
| "split_dot (c # cs) =
     (if c = CHR ''.'' then [] # split_dot cs
      else (c # hd (split_dot cs)) # tl (split_dot cs))"

text \<open>
  \<open>int(s)\<close> on a string, base 10: white space around the literal is dropped, one sign
  may lead, and the digits may be grouped by single underscores, each between two
  digits. Anything else raises \<open>ValueError\<close>, which is the value \<open>None\<close> here.
  White space is what \<open>int\<close> strips: tab, line feed, vertical tab, form feed, carriage
  return and space, and beyond ASCII the code points 133 and 160. The limit that
  interpreters from 3.11 on put on the number of digits of a literal (4300 unless
  configured otherwise, \<open>ValueError\<close> beyond) is not part of the model.
\<close>

definition is_space :: "char \<Rightarrow> bool" where
  "is_space c = ((of_char c :: nat) \<in> {9, 10, 11, 12, 13, 32, 133, 160})"

definition is_digit :: "char \<Rightarrow> bool" where
  "is_digit c = (48 \<le> (of_char c :: nat) \<and> (of_char c :: nat) \<le> 57)"

definition digit_val :: "char \<Rightarrow> int" where
  "digit_val c = int (of_char c) - 48"

definition strip :: "string \<Rightarrow> string" where
  "strip s = rev (dropWhile is_space (rev (dropWhile is_space s)))"

fun digits_from :: "int \<Rightarrow> string \<Rightarrow> int option" where
  "digits_from acc [] = Some acc"
| "digits_from acc (c # cs) =
     (if is_digit c then digits_from (10 * acc + digit_val c) cs
      else if c = CHR ''_'' then
        (case cs of
           [] \<Rightarrow> None
         | d # ds \<Rightarrow> if is_digit d then digits_from acc cs else None)
      else None)"

definition unsigned_literal :: "string \<Rightarrow> int option" where
  "unsigned_literal s =
     (case s of
        [] \<Rightarrow> None
      | c # cs \<Rightarrow> if is_digit c then digits_from 0 s else None)"

definition py_int :: "string \<Rightarrow> int option" where
  "py_int s =
     (case strip s of
        [] \<Rightarrow> None
      | c # cs \<Rightarrow>
          if c = CHR ''-'' then map_option uminus (unsigned_literal cs)
          else if c = CHR ''+'' then unsigned_literal cs
          else unsigned_literal (c # cs))"

text \<open>
  \<open>tuple(map(int, v.split('.')))\<close>: the first piece that does not parse raises, and the
  whole conversion raises with it.
\<close>

fun map_int :: "string list \<Rightarrow> int list option" where
  "map_int [] = Some []"
| "map_int (p # ps) =
     (case py_int p of
        None \<Rightarrow> None
      | Some n \<Rightarrow> (case map_int ps of None \<Rightarrow> None | Some ns \<Rightarrow> Some (n # ns)))"

definition version_tuple :: "string \<Rightarrow> int list option" where
  "version_tuple v = map_int (split_dot v)"

text \<open>
  The fallback of \<open>_compare_versions\<close>, taken when \<open>ValueError\<close> is caught: the two raw
  strings are compared as strings.
\<close>

definition compare_strings :: "string \<Rightarrow> string \<Rightarrow> int" where
  "compare_strings version1 version2 =
     (if seq_lt (codepoints version1) (codepoints version2) then - 1
      else if seq_gt (codepoints version1) (codepoints version2) then 1
      else 0)"

text \<open>
  \<open>_compare_versions\<close>: both tuples are built inside the \<open>try\<close>, so a \<open>ValueError\<close> from
  either string leads to the fallback. The result is \<open>-1\<close>, \<open>0\<close> or \<open>1\<close>.
\<close>

definition compare_versions :: "string \<Rightarrow> string \<Rightarrow> int" where
  "compare_versions version1 version2 =
     (case version_tuple version1 of
        None \<Rightarrow> compare_strings version1 version2
      | Some v1_tuple \<Rightarrow>
          (case version_tuple version2 of
             None \<Rightarrow> compare_strings version1 version2
           | Some v2_tuple \<Rightarrow>
               if seq_lt v1_tuple v2_tuple then - 1
               else if seq_gt v1_tuple v2_tuple then 1
               else 0))"

section \<open>Releases, settings and the persisted files\<close>

text \<open>\<open>ReleaseInfo\<close> and \<open>NotificationSettings\<close>, field by field.\<close>

record release_info =
  version :: string
  tag_name :: string
  name :: string
  body :: string
  published_at :: string
  download_url :: string
  is_prerelease :: bool
  is_draft :: bool

record notification_settings =
  check_interval_hours :: int
  notify_on_prerelease :: bool
  notify_on_draft :: bool
  auto_download :: bool
  show_changelog :: bool
  github_token :: "string option"
  repository_owner :: string
  repository_name :: string

text \<open>
  One entry of the list the releases endpoint answers with: a dictionary, in which any
  of the keys the parser reads may be absent (\<open>None\<close>).
\<close>

record release_data =
  raw_tag_name :: "string option"
  raw_name :: "string option"
  raw_body :: "string option"
  raw_published_at :: "string option"
  raw_html_url :: "string option"
  raw_prerelease :: "bool option"
  raw_draft :: "bool option"

text \<open>\<open>dict.get(key, default)\<close> and \<open>str.lstrip('v')\<close>.\<close>

definition get_or :: "'a option \<Rightarrow> 'a \<Rightarrow> 'a" where
  "get_or field dflt = (case field of None \<Rightarrow> dflt | Some x \<Rightarrow> x)"

definition lstrip_v :: "string \<Rightarrow> string" where
  "lstrip_v s = dropWhile (\<lambda>c. c = CHR ''v'') s"

definition parse_release_info :: "release_data \<Rightarrow> release_info" where
  "parse_release_info release_data =
     \<lparr> version = lstrip_v (get_or (raw_tag_name release_data) []),
       tag_name = get_or (raw_tag_name release_data) [],
       name = get_or (raw_name release_data) [],
       body = get_or (raw_body release_data) [],
       published_at = get_or (raw_published_at release_data) [],
       download_url = get_or (raw_html_url release_data) [],
       is_prerelease = get_or (raw_prerelease release_data) False,
       is_draft = get_or (raw_draft release_data) False \<rparr>"

text \<open>
  A JSON file of the working directory as a read finds it: not there, there but
  \<open>json.load\<close> raises, or there with a content. Writes are taken to succeed (on an I/O
  error the source only logs).
\<close>

datatype 'a json_file = Absent | Garbled | Holds 'a

text \<open>
  The \<open>last_check\<close> entry of \<open>last_version_check.json\<close>: the key is missing, its value
  does not go through \<open>datetime.fromisoformat\<close> and the subtraction from \<open>now\<close>, or it is
  an instant. Instants are naive datetimes, counted in microseconds since 1970-01-01.
\<close>

datatype last_check_entry = NoEntry | BadEntry | Instant int

record files =
  last_check_file :: "last_check_entry json_file"
  skip_file :: "string list json_file"

text \<open>The checker object: its settings and the version read when it was built.\<close>

record checker =
  settings :: notification_settings
  current_version :: string

text \<open>The signal \<open>error_occurred\<close> of the checker, with its message.\<close>

datatype signal = ErrorOccurred string

section \<open>The cadence of checks\<close>

text \<open>
  \<open>datetime.fromisoformat('2000-01-01')\<close>, the default of a missing \<open>last_check\<close> key:
  946684800 seconds after 1970-01-01.
\<close>

definition default_last_check :: int where
  "default_last_check = 946684800 * 1000000"

text \<open>
  \<open>timedelta(hours=h)\<close> in microseconds; it raises \<open>OverflowError\<close> (\<open>None\<close>) when the
  number of days leaves the range of \<open>timedelta\<close>.
\<close>

definition timedelta_hours :: "int \<Rightarrow> int option" where
  "timedelta_hours h =
     (if h div 24 > 999999999 \<or> h div 24 < - 999999999 then None
      else Some (h * 3600 * 1000000))"

text \<open>
  \<open>datetime.fromisoformat(data.get('last_check', '2000-01-01'))\<close>: a missing key reads as
  the default, and a value that does not parse raises (\<open>None\<close>).
\<close>

definition read_last_check :: "last_check_entry \<Rightarrow> int option" where
  "read_last_check entry =
     (case entry of
        NoEntry \<Rightarrow> Some default_last_check
      | BadEntry \<Rightarrow> None
      | Instant t \<Rightarrow> Some t)"

text \<open>
  \<open>_should_check_for_updates\<close>: every exception inside the \<open>try\<close> answers \<open>True\<close>.
\<close>

definition should_check_for_updates :: "int \<Rightarrow> checker \<Rightarrow> files \<Rightarrow> bool" where
  "should_check_for_updates now self fs =
     (case last_check_file fs of
        Absent \<Rightarrow> True
      | Garbled \<Rightarrow> True
      | Holds entry \<Rightarrow>
          (case read_last_check entry of
             None \<Rightarrow> True
           | Some last_check \<Rightarrow>
               (case timedelta_hours (check_interval_hours (settings self)) of
                  None \<Rightarrow> True
                | Some check_interval \<Rightarrow> now - last_check > check_interval)))"

text \<open>\<open>_update_last_check_time\<close> writes the present instant.\<close>

definition update_last_check_time :: "int \<Rightarrow> files \<Rightarrow> files" where
  "update_last_check_time now fs = fs\<lparr>last_check_file := Holds (Instant now)\<rparr>"

section \<open>The check\<close>

text \<open>
  The two tests of the loop that pass over a release by its flags alone.
\<close>

definition filtered_out :: "notification_settings \<Rightarrow> release_info \<Rightarrow> bool" where
  "filtered_out st release_info =
     ((is_prerelease release_info \<and> \<not> notify_on_prerelease st)
      \<or> (is_draft release_info \<and> \<not> notify_on_draft st))"

text \<open>
  The loop of \<open>check_for_updates\<close> over the fetched entries: a prerelease or a draft the
  settings do not ask for is passed over, and so is a release that is not newer than
  the current version; the first release left is returned.
\<close>

fun scan_releases :: "notification_settings \<Rightarrow> string \<Rightarrow> release_data list \<Rightarrow> release_info option" where
  "scan_releases st cur [] = None"
| "scan_releases st cur (release_data # rest) =
     (let release_info = parse_release_info release_data in
      if is_prerelease release_info \<and> \<not> notify_on_prerelease st then scan_releases st cur rest
      else if is_draft release_info \<and> \<not> notify_on_draft st then scan_releases st cur rest
      else if compare_versions cur (version release_info) < 0 then Some release_info
      else scan_releases st cur rest)"

text \<open>
  \<open>check_for_updates\<close>. \<open>pyqt\<close> is \<open>PYQT_AVAILABLE\<close>, \<open>now\<close> the clock, and \<open>response\<close> what
  \<open>_make_github_request\<close> would give: \<open>Inl e\<close> when the request raises (the source then
  returns \<open>None\<close> after emitting the error), \<open>Inr\<close> the list of entries otherwise. The
  result is the returned value, the signals emitted, and the files afterwards. Log lines
  are not modelled.
\<close>

definition check_for_updates ::
  "bool \<Rightarrow> int \<Rightarrow> string + release_data list \<Rightarrow> checker \<Rightarrow> files
     \<Rightarrow> release_info option \<times> signal list \<times> files" where
  "check_for_updates pyqt now response self fs =
     (if repository_owner (settings self) = [] \<or> repository_name (settings self) = [] then
        (None, if pyqt then [ErrorOccurred ''Repository configuration missing''] else [], fs)
      else if \<not> should_check_for_updates now self fs then (None, [], fs)
      else
        (case response of
           Inl e \<Rightarrow>
             (None, if pyqt then [ErrorOccurred (''Failed to connect to GitHub: '' @ e)] else [], fs)
         | Inr releases_data \<Rightarrow>
             if releases_data = [] then (None, [], fs)
             else
               (case scan_releases (settings self) (current_version self) releases_data of
                  Some release_info \<Rightarrow> (Some release_info, [], update_last_check_time now fs)
                | None \<Rightarrow> (None, [], update_last_check_time now fs))))"

section \<open>The skip list\<close>

text \<open>
  Both readers of \<open>skipped_versions.json\<close> start from the empty list and keep it when
  the file is missing or does not load. The file is taken to hold a list of strings,
  which is what \<open>skip_version\<close> writes.
\<close>

definition load_skipped :: "files \<Rightarrow> string list" where
  "load_skipped fs =
     (case skip_file fs of Absent \<Rightarrow> [] | Garbled \<Rightarrow> [] | Holds skipped_versions \<Rightarrow> skipped_versions)"

text \<open>
  \<open>VersionNotificationDialog.skip_version\<close>: the version is appended and the list
  written back only when it is not yet in the list.
\<close>

definition skip_version :: "release_info \<Rightarrow> files \<Rightarrow> files" where
  "skip_version release_info fs =
     (let skipped_versions = load_skipped fs in
      if version release_info \<notin> set skipped_versions
      then fs\<lparr>skip_file := Holds (skipped_versions @ [version release_info])\<rparr>
      else fs)"

text \<open>
  \<open>GitHubVersionNotifier._handle_new_version\<close>: without the GUI toolkit it prints the
  version and the link; with it, a skipped version ends the handler and any other opens
  the dialog.
\<close>

datatype notification =
    Printed string string
  | Suppressed
  | DialogShown release_info

definition handle_new_version :: "bool \<Rightarrow> release_info \<Rightarrow> files \<Rightarrow> notification" where
  "handle_new_version pyqt release_info fs =
     (if \<not> pyqt then Printed (version release_info) (download_url release_info)
      else if version release_info \<in> set (load_skipped fs) then Suppressed
      else DialogShown release_info)"

section \<open>Concrete inputs\<close>

text \<open>
  Entries as the releases endpoint sends them, a configured checker, and the instant
  2026-11-03T00:00:00, for the evaluations below.
\<close>

definition stable_entry :: "string \<Rightarrow> release_data" where
  "stable_entry tag =
     \<lparr> raw_tag_name = Some tag, raw_name = None, raw_body = None, raw_published_at = None,
       raw_html_url = None, raw_prerelease = Some False, raw_draft = Some False \<rparr>"

definition prerelease_entry :: "string \<Rightarrow> release_data" where
  "prerelease_entry tag =
     \<lparr> raw_tag_name = Some tag, raw_name = None, raw_body = None, raw_published_at = None,
       raw_html_url = None, raw_prerelease = Some True, raw_draft = Some False \<rparr>"

definition example_settings :: "string \<Rightarrow> int \<Rightarrow> notification_settings" where
  "example_settings owner hours =
     \<lparr> check_interval_hours = hours, notify_on_prerelease = False, notify_on_draft = False,
       auto_download = False, show_changelog = True, github_token = None,
       repository_owner = owner, repository_name = ''candor-coding-platform'' \<rparr>"

definition example_checker :: "string \<Rightarrow> string \<Rightarrow> int \<Rightarrow> checker" where
  "example_checker owner cur hours =
     \<lparr> settings = example_settings owner hours, current_version = cur \<rparr>"

definition example_files :: "last_check_entry json_file \<Rightarrow> string list json_file \<Rightarrow> files" where
  "example_files lc sk = \<lparr> last_check_file = lc, skip_file = sk \<rparr>"

definition example_now :: int where
  "example_now = 1793664000 * 1000000"

section \<open>Properties of the comparison\<close>

lemma seq_gt_conv: "seq_gt xs ys = seq_lt ys xs"
  by (induction xs ys rule: seq_lt.induct) auto

lemma seq_lt_asym: "seq_lt xs ys \<Longrightarrow> \<not> seq_lt ys xs"
  by (induction xs ys rule: seq_lt.induct) (auto split: if_splits)

lemma seq_lt_prefix: "u \<noteq> [] \<Longrightarrow> seq_lt t (t @ u)"
  by (induction t) (auto simp: neq_Nil_conv)

text \<open>\<open>seq_lt\<close> is the lexicographic order of the library.\<close>

lemma seq_lt_lexord: "seq_lt xs ys \<longleftrightarrow> (xs, ys) \<in> lexord {(a, b). a < b}"
  by (induction xs ys rule: seq_lt.induct) auto

lemma version_tuple_1_2: "version_tuple ''1.2'' = Some [1, 2]"
  by code_simp

lemma version_tuple_1_2_0: "version_tuple ''1.2.0'' = Some ([1, 2] @ [0])"
  by code_simp

text \<open>
  Claim C1, as the code has it. The tuples are compared as Python compares tuples,
  with no padding: when both versions parse and the tuple of the first is a proper
  prefix of the tuple of the second, the first is the smaller one, so the result is
  \<open>-1\<close> (and \<open>1\<close> the other way round), never \<open>0\<close>.
\<close>

theorem compare_versions_prefix:
  assumes "version_tuple a = Some t" and "version_tuple b = Some (t @ u)" and "u \<noteq> []"
  shows "compare_versions a b = - 1 \<and> compare_versions b a = 1"
  using assms seq_lt_prefix[of u t] seq_lt_asym[of t "t @ u"]
  by (simp add: compare_versions_def seq_gt_conv)

theorem compare_versions_prefix_witness:
  "version_tuple ''1.2'' = Some [1, 2] \<and> version_tuple ''1.2.0'' = Some ([1, 2] @ [0])
   \<and> compare_versions ''1.2'' ''1.2.0'' = - 1 \<and> compare_versions ''1.2.0'' ''1.2'' = 1"
  using compare_versions_prefix[OF version_tuple_1_2 version_tuple_1_2_0]
    version_tuple_1_2 version_tuple_1_2_0
  by simp

text \<open>
  The claim as the specification words it fails on its own example: both strings
  parse, the second only adds a segment \<open>0\<close>, and the result is \<open>-1\<close>, not \<open>0\<close>.
\<close>

theorem compare_versions_prefix_counterexample:
  "version_tuple ''1.2'' = Some [1, 2] \<and> version_tuple ''1.2.0'' = Some [1, 2, 0]
   \<and> compare_versions ''1.2'' ''1.2.0'' = - 1 \<and> compare_versions ''1.2'' ''1.2.0'' \<noteq> 0"
  by code_simp

text \<open>
  Claim C7. For all strings \<open>a\<close> and \<open>b\<close>, whether they parse or not,
  \<open>compare_versions a b\<close> is \<open>1\<close> exactly when \<open>compare_versions b a\<close> is \<open>-1\<close>.
\<close>

theorem compare_versions_antisymmetric:
  "(compare_versions a b = 1) = (compare_versions b a = - 1)"
  by (auto simp: compare_versions_def compare_strings_def seq_gt_conv
      split: option.splits dest: seq_lt_asym)

text \<open>
  The fallback against the lexicographic order of the library on code points: it is
  \<open>-1\<close> exactly when the first string is the smaller one, \<open>1\<close> exactly when the second
  is, and \<open>0\<close> exactly when the two strings are the same.
\<close>

lemma seq_lt_total: "\<not> seq_lt xs ys \<Longrightarrow> \<not> seq_lt ys xs \<Longrightarrow> xs = ys"
  by (induction xs ys rule: seq_lt.induct) (auto split: if_splits)

lemma seq_lt_irrefl: "\<not> seq_lt xs xs"
  using seq_lt_asym by blast

lemma codepoints_eq_iff: "codepoints a = codepoints b \<longleftrightarrow> a = b"
  by (simp add: codepoints_def inj_map_eq_map[OF inj_of_char])

lemma compare_strings_less:
  "(compare_strings a b = - 1) =
     ((map of_char a, map of_char b) \<in> lexord {(x, y :: nat). x < y})"
  by (simp add: compare_strings_def seq_lt_lexord codepoints_def)

lemma compare_strings_greater:
  "(compare_strings a b = 1) =
     ((map of_char b, map of_char a) \<in> lexord {(x, y :: nat). x < y})"
  using seq_lt_asym[of "codepoints b" "codepoints a"]
  by (auto simp: compare_strings_def seq_gt_conv seq_lt_lexord[symmetric] codepoints_def)

lemma compare_strings_equal: "(compare_strings a b = 0) = (a = b)"
  using seq_lt_total[of "codepoints a" "codepoints b"] seq_lt_irrefl[of "codepoints a"]
  by (auto simp: compare_strings_def seq_gt_conv codepoints_eq_iff)

lemma compare_versions_fallback:
  "version_tuple a = None \<or> version_tuple b = None \<Longrightarrow>
     compare_versions a b = compare_strings a b"
  by (auto simp: compare_versions_def split: option.splits)

text \<open>
  Claim C8. For all strings the comparison returns \<open>-1\<close>, \<open>0\<close> or \<open>1\<close>: the only
  exception of the body, the \<open>ValueError\<close> of \<open>int\<close>, is caught. When either string
  fails to parse, the result is the ordinal comparison of the raw strings: \<open>-1\<close> exactly
  when the first is below the second in the lexicographic order on code points, \<open>1\<close>
  exactly when the second is below the first, and \<open>0\<close> exactly when they are equal.
\<close>

theorem compare_versions_total:
  "compare_versions a b \<in> {- 1, 0, 1}
   \<and> (version_tuple a = None \<or> version_tuple b = None \<longrightarrow>
        (compare_versions a b = - 1) =
          ((map of_char a, map of_char b) \<in> lexord {(x, y :: nat). x < y})
      \<and> (compare_versions a b = 1) =
          ((map of_char b, map of_char a) \<in> lexord {(x, y :: nat). x < y})
      \<and> (compare_versions a b = 0) = (a = b))"
proof -
  have range: "compare_versions a b \<in> {- 1, 0, 1}"
    by (auto simp: compare_versions_def compare_strings_def split: option.splits)
  have fallback: "(compare_versions a b = - 1) =
          ((map of_char a, map of_char b) \<in> lexord {(x, y :: nat). x < y})
      \<and> (compare_versions a b = 1) =
          ((map of_char b, map of_char a) \<in> lexord {(x, y :: nat). x < y})
      \<and> (compare_versions a b = 0) = (a = b)"
    if "version_tuple a = None \<or> version_tuple b = None"
    using compare_versions_fallback[OF that]
    by (simp only: compare_strings_less compare_strings_greater compare_strings_equal)
  from range fallback show ?thesis by blast
qed

text \<open>
  At \<open>abc\<close> against \<open>1.0\<close> the first string does not parse and is the greater one, and
  the result is \<open>1\<close>; the other way round it is \<open>-1\<close>; \<open>abc\<close> against itself gives \<open>0\<close>; the
  empty string does not parse and is below \<open>1.0\<close>.
\<close>

theorem compare_versions_total_witness:
  "version_tuple ''abc'' = None
   \<and> compare_versions ''abc'' ''1.0'' = 1
   \<and> compare_versions ''1.0'' ''abc'' = - 1
   \<and> compare_versions ''abc'' ''abc'' = 0
   \<and> compare_versions [] ''1.0'' = - 1"
proof -
  have p: "version_tuple ''abc'' = None"
    by code_simp
  have e: "version_tuple [] = None"
    by code_simp
  have 1: "compare_versions ''abc'' ''1.0'' = 1"
    using compare_versions_total[of "''abc''" "''1.0''"] p by simp
  have 2: "compare_versions ''1.0'' ''abc'' = - 1"
    using compare_versions_total[of "''1.0''" "''abc''"] p by simp
  have 3: "compare_versions ''abc'' ''abc'' = 0"
    using compare_versions_total[of "''abc''" "''abc''"] p by simp
  have 4: "compare_versions [] ''1.0'' = - 1"
    using compare_versions_total[of "[]" "''1.0''"] e by simp
  from p 1 2 3 4 show ?thesis by blast
qed

section \<open>Properties of the check\<close>

text \<open>
  The loop returns the first entry, in list order, that passes both flag tests and is
  strictly newer than the current version.
\<close>

lemma scan_releases_find:
  "scan_releases st cur ds =
     find (\<lambda>r. \<not> filtered_out st r \<and> compare_versions cur (version r) < 0)
       (map parse_release_info ds)"
  by (induction ds) (auto simp: filtered_out_def Let_def)

text \<open>
  Claim C2, as the code has it. With the repository configured, the check due and the
  fetch answered, \<open>check_for_updates\<close> returns the first release of the list that is both
  eligible and strictly newer than the current version, and \<open>None\<close> exactly when there is
  no such release. An eligible release that is not newer does not end the scan.
\<close>

theorem check_for_updates_first_newer:
  assumes "repository_owner (settings self) \<noteq> []"
    and "repository_name (settings self) \<noteq> []"
    and "should_check_for_updates now self fs"
  shows "fst (check_for_updates pyqt now (Inr releases_data) self fs) =
     find (\<lambda>r. \<not> filtered_out (settings self) r
                \<and> compare_versions (current_version self) (version r) < 0)
       (map parse_release_info releases_data)"
proof -
  have "fst (check_for_updates pyqt now (Inr releases_data) self fs) =
      scan_releases (settings self) (current_version self) releases_data"
  proof (cases releases_data)
    case Nil
    with assms show ?thesis by (simp add: check_for_updates_def)
  next
    case (Cons d ds)
    with assms show ?thesis
      by (simp add: check_for_updates_def split: option.splits del: scan_releases.simps)
  qed
  then show ?thesis by (simp only: scan_releases_find)
qed

theorem check_for_updates_first_newer_witness:
  "repository_owner (settings (example_checker ''candor-cdp'' ''1.0.0'' 24)) \<noteq> []
   \<and> repository_name (settings (example_checker ''candor-cdp'' ''1.0.0'' 24)) \<noteq> []
   \<and> should_check_for_updates example_now (example_checker ''candor-cdp'' ''1.0.0'' 24)
        (example_files Absent Absent)
   \<and> fst (check_for_updates True example_now
        (Inr [stable_entry ''v1.0.0'', stable_entry ''v2.0.0''])
        (example_checker ''candor-cdp'' ''1.0.0'' 24) (example_files Absent Absent)) =
      Some (parse_release_info (stable_entry ''v2.0.0''))"
proof -
  have o: "repository_owner (settings (example_checker ''candor-cdp'' ''1.0.0'' 24)) \<noteq> []"
    by (simp add: example_checker_def example_settings_def)
  have n: "repository_name (settings (example_checker ''candor-cdp'' ''1.0.0'' 24)) \<noteq> []"
    by (simp add: example_checker_def example_settings_def)
  have d: "should_check_for_updates example_now (example_checker ''candor-cdp'' ''1.0.0'' 24)
        (example_files Absent Absent)"
    by (simp add: should_check_for_updates_def example_files_def)
  have f: "find (\<lambda>r. \<not> filtered_out (settings (example_checker ''candor-cdp'' ''1.0.0'' 24)) r
        \<and> compare_versions (current_version (example_checker ''candor-cdp'' ''1.0.0'' 24))
            (version r) < 0)
      (map parse_release_info [stable_entry ''v1.0.0'', stable_entry ''v2.0.0'']) =
      Some (parse_release_info (stable_entry ''v2.0.0''))"
    by code_simp
  show ?thesis
    using check_for_updates_first_newer[OF o n d, of True
        "[stable_entry ''v1.0.0'', stable_entry ''v2.0.0'']"] o n d f
    by simp
qed

text \<open>
  The claim as the specification words it fails: the first eligible release, 1.0.0, is
  equal to the current version, and yet the later release 2.0.0 is returned.
\<close>

theorem first_eligible_not_newer_counterexample:
  "find (\<lambda>r. \<not> filtered_out (example_settings ''candor-cdp'' 24) r)
     (map parse_release_info [stable_entry ''v1.0.0'', stable_entry ''v2.0.0'']) =
     Some (parse_release_info (stable_entry ''v1.0.0''))
   \<and> compare_versions ''1.0.0'' (version (parse_release_info (stable_entry ''v1.0.0''))) = 0
   \<and> fst (check_for_updates True example_now
        (Inr [stable_entry ''v1.0.0'', stable_entry ''v2.0.0''])
        (example_checker ''candor-cdp'' ''1.0.0'' 24) (example_files Absent Absent)) =
      Some (parse_release_info (stable_entry ''v2.0.0''))"
  by code_simp

text \<open>
  Claim C6, as the code has it. The loop scans in order and passes over a release
  exactly when it is a prerelease the settings do not ask for, or a draft they do not
  ask for, or not strictly newer than the current version; it returns the first release
  left. It returns nothing on the empty list and on a list whose releases are all
  filtered out by their flags.
\<close>

theorem scan_releases_selects:
  "scan_releases st cur ds =
     find (\<lambda>r. \<not> filtered_out st r \<and> compare_versions cur (version r) < 0)
       (map parse_release_info ds)
   \<and> scan_releases st cur [] = None
   \<and> scan_releases st cur (filter (\<lambda>d. filtered_out st (parse_release_info d)) ds) = None"
proof -
  have "find (\<lambda>r. \<not> filtered_out st r \<and> compare_versions cur (version r) < 0)
       (map parse_release_info (filter (\<lambda>d. filtered_out st (parse_release_info d)) ds)) = None"
    by (simp add: find_None_iff)
  then show ?thesis by (simp add: scan_releases_find del: scan_releases.simps)
qed

text \<open>
  The example of the claim, for a current version older than the stable release: the
  newer prerelease is passed over and the stable release is returned.
\<close>

lemma scan_releases_skips_prerelease:
  "scan_releases (example_settings ''candor-cdp'' 24) ''1.0.0''
     [prerelease_entry ''v2.0.0'', stable_entry ''v1.1.0''] =
   Some (parse_release_info (stable_entry ''v1.1.0''))"
  by code_simp

text \<open>
  The claim as the specification words it fails: the first release not filtered out is
  1.0.0, and the loop returns 2.0.0, since 1.0.0 is older than the current 1.5.0.
\<close>

theorem scan_releases_first_unfiltered_counterexample:
  "find (\<lambda>r. \<not> filtered_out (example_settings ''candor-cdp'' 24) r)
     (map parse_release_info
        [prerelease_entry ''v3.0.0'', stable_entry ''v1.0.0'', stable_entry ''v2.0.0'']) =
     Some (parse_release_info (stable_entry ''v1.0.0''))
   \<and> scan_releases (example_settings ''candor-cdp'' 24) ''1.5.0''
        [prerelease_entry ''v3.0.0'', stable_entry ''v1.0.0'', stable_entry ''v2.0.0''] =
     Some (parse_release_info (stable_entry ''v2.0.0''))
   \<and> parse_release_info (stable_entry ''v2.0.0'') \<noteq> parse_release_info (stable_entry ''v1.0.0'')"
  by code_simp

text \<open>The check never reads the skip list.\<close>

lemma check_for_updates_ignores_skip_file:
  "fst (check_for_updates pyqt now response self (fs\<lparr>skip_file := sk\<rparr>)) =
   fst (check_for_updates pyqt now response self fs)"
  by (simp add: check_for_updates_def should_check_for_updates_def update_last_check_time_def
      split: sum.splits option.splits)

text \<open>
  Claim C3, as the code has it. What \<open>check_for_updates\<close> returns does not depend on the
  skip list, so a skipped version that is newer is still returned. The skip list is
  honoured afterwards: with the GUI toolkit available, \<open>_handle_new_version\<close> shows no
  dialog for a release whose version is in the stored list.
\<close>

theorem skip_list_honoured_by_handler:
  "fst (check_for_updates pyqt now response self (fs\<lparr>skip_file := sk\<rparr>)) =
     fst (check_for_updates pyqt now response self fs)
   \<and> (version release_info \<in> set (load_skipped fs) \<longrightarrow>
        handle_new_version True release_info fs = Suppressed)"
  by (simp add: check_for_updates_ignores_skip_file handle_new_version_def)

theorem skip_list_honoured_by_handler_witness:
  "version (parse_release_info (stable_entry ''v1.1.0''))
     \<in> set (load_skipped (example_files Absent (Holds [''1.1.0''])))
   \<and> handle_new_version True (parse_release_info (stable_entry ''v1.1.0''))
        (example_files Absent (Holds [''1.1.0''])) = Suppressed"
proof -
  have m: "version (parse_release_info (stable_entry ''v1.1.0''))
     \<in> set (load_skipped (example_files Absent (Holds [''1.1.0''])))"
    by code_simp
  from skip_list_honoured_by_handler[where fs = "example_files Absent (Holds [''1.1.0''])"
      and release_info = "parse_release_info (stable_entry ''v1.1.0'')"] m
  show ?thesis by blast
qed

text \<open>
  The claim as the specification words it fails: version 1.1.0 is in the skip list and
  the check still returns the release 1.1.0 to its caller.
\<close>

theorem skipped_version_returned_counterexample:
  "version (parse_release_info (stable_entry ''v1.1.0''))
     \<in> set (load_skipped (example_files Absent (Holds [''1.1.0''])))
   \<and> fst (check_for_updates True example_now (Inr [stable_entry ''v1.1.0''])
        (example_checker ''candor-cdp'' ''1.0.0'' 24)
        (example_files Absent (Holds [''1.1.0'']))) =
      Some (parse_release_info (stable_entry ''v1.1.0''))"
  by code_simp

text \<open>
  Claim C4, as the code has it. With an empty repository owner or name,
  \<open>check_for_updates\<close> returns \<open>None\<close>, the value it also returns when there is no update
  and when the fetch fails. It does so before the cadence test, the fetch, the filter
  and the comparison: the result depends on none of them and the files are left as they
  were. With the GUI toolkit available it emits the error signal with the message
  \<open>Repository configuration missing\<close>; without it, it emits nothing.
\<close>

theorem missing_repository_returns_none:
  assumes "repository_owner (settings self) = [] \<or> repository_name (settings self) = []"
  shows "check_for_updates pyqt now response self fs =
     (None, if pyqt then [ErrorOccurred ''Repository configuration missing''] else [], fs)"
  using assms by (auto simp: check_for_updates_def)

theorem missing_repository_returns_none_witness:
  "(repository_owner (settings (example_checker [] ''1.0.0'' 24)) = []
      \<or> repository_name (settings (example_checker [] ''1.0.0'' 24)) = [])
   \<and> check_for_updates True example_now (Inr [stable_entry ''v1.1.0''])
        (example_checker [] ''1.0.0'' 24) (example_files Absent Absent) =
      (None, [ErrorOccurred ''Repository configuration missing''], example_files Absent Absent)"
proof -
  have h: "repository_owner (settings (example_checker [] ''1.0.0'' 24)) = []
      \<or> repository_name (settings (example_checker [] ''1.0.0'' 24)) = []"
    by (simp add: example_checker_def example_settings_def)
  from missing_repository_returns_none[OF h, of True example_now
      "Inr [stable_entry ''v1.1.0'']" "example_files Absent Absent"] h
  show ?thesis by simp
qed

text \<open>
  The claim as the specification words it fails: without the GUI toolkit the whole
  outcome of a check with an empty owner (value, signals, files) is that of a check
  whose fetch failed, and with the toolkit the returned value is that of a check that
  found no update.
\<close>

theorem missing_repository_indistinct_counterexample:
  "check_for_updates False example_now (Inr [stable_entry ''v1.1.0''])
        (example_checker [] ''1.0.0'' 24) (example_files Absent Absent) =
      check_for_updates False example_now (Inl ''timed out'')
        (example_checker ''candor-cdp'' ''1.0.0'' 24) (example_files Absent Absent)
   \<and> fst (check_for_updates True example_now (Inr [stable_entry ''v1.1.0''])
        (example_checker [] ''1.0.0'' 24) (example_files Absent Absent)) =
      fst (check_for_updates True example_now (Inr [stable_entry ''v1.0.0''])
        (example_checker ''candor-cdp'' ''1.0.0'' 24) (example_files Absent Absent))"
  by code_simp

text \<open>
  The two halves of the cadence bookkeeping that hold: a check over a non-empty list
  writes the present instant whatever it returns, and a failed fetch writes nothing.
\<close>

lemma completed_check_updates_last_check:
  assumes "repository_owner (settings self) \<noteq> []"
    and "repository_name (settings self) \<noteq> []"
    and "should_check_for_updates now self fs"
    and "releases_data \<noteq> []"
  shows "snd (snd (check_for_updates pyqt now (Inr releases_data) self fs)) =
     fs\<lparr>last_check_file := Holds (Instant now)\<rparr>"
  using assms
  by (simp add: check_for_updates_def update_last_check_time_def split: option.splits)

lemma failed_fetch_keeps_last_check:
  "snd (snd (check_for_updates pyqt now (Inl e) self fs)) = fs"
  by (simp add: check_for_updates_def)

text \<open>
  Claim C5, where the code departs from it. The fetch succeeds with an empty list (a
  repository without releases): the check is due, it completes with \<open>None\<close>, and the
  last-check file is not written, so the next trigger is due again at once. The test
  \<open>if not releases_data\<close> takes the empty list for a failed request.
\<close>

theorem empty_release_list_keeps_last_check:
  "should_check_for_updates example_now (example_checker ''candor-cdp'' ''1.0.0'' 24)
     (example_files Absent Absent)
   \<and> check_for_updates True example_now (Inr [])
       (example_checker ''candor-cdp'' ''1.0.0'' 24) (example_files Absent Absent) =
     (None, [], example_files Absent Absent)
   \<and> should_check_for_updates (example_now + 1) (example_checker ''candor-cdp'' ''1.0.0'' 24)
       (snd (snd (check_for_updates True example_now (Inr [])
          (example_checker ''candor-cdp'' ''1.0.0'' 24) (example_files Absent Absent))))"
  by code_simp

section \<open>Properties of the cadence and of the skip list\<close>

text \<open>
  Claim C9, as the code has it. When the last-check file does not load, or its
  timestamp does not parse, the answer is \<open>True\<close>. When the timestamp is missing, the
  record is read as 2000-01-01T00:00:00, and the answer is \<open>True\<close> exactly when more than
  the check interval has passed since then (or the interval overflows \<open>timedelta\<close>).
\<close>

theorem unreadable_last_check_record:
  "(last_check_file fs = Garbled \<or> last_check_file fs = Holds BadEntry \<longrightarrow>
      should_check_for_updates now self fs)
   \<and> (last_check_file fs = Holds NoEntry \<longrightarrow>
      should_check_for_updates now self fs =
        (case timedelta_hours (check_interval_hours (settings self)) of
           None \<Rightarrow> True
         | Some check_interval \<Rightarrow> now - default_last_check > check_interval))"
  by (auto simp: should_check_for_updates_def read_last_check_def)

theorem unreadable_last_check_record_witness:
  "should_check_for_updates example_now (example_checker ''candor-cdp'' ''1.0.0'' 24)
     (example_files Garbled Absent)
   \<and> should_check_for_updates example_now (example_checker ''candor-cdp'' ''1.0.0'' 24)
     (example_files (Holds NoEntry) Absent)"
proof -
  have g: "last_check_file (example_files Garbled Absent) = Garbled"
    by (simp add: example_files_def)
  have n: "last_check_file (example_files (Holds NoEntry) Absent) = Holds NoEntry"
    by (simp add: example_files_def)
  have c: "(case timedelta_hours
              (check_interval_hours (settings (example_checker ''candor-cdp'' ''1.0.0'' 24))) of
           None \<Rightarrow> True
         | Some check_interval \<Rightarrow> example_now - default_last_check > check_interval)"
    by code_simp
  from unreadable_last_check_record[of "example_files Garbled Absent" example_now
      "example_checker ''candor-cdp'' ''1.0.0'' 24"] g
  have 1: "should_check_for_updates example_now (example_checker ''candor-cdp'' ''1.0.0'' 24)
     (example_files Garbled Absent)"
    by blast
  from unreadable_last_check_record[of "example_files (Holds NoEntry) Absent" example_now
      "example_checker ''candor-cdp'' ''1.0.0'' 24"] n c
  have 2: "should_check_for_updates example_now (example_checker ''candor-cdp'' ''1.0.0'' 24)
     (example_files (Holds NoEntry) Absent)"
    by blast
  from 1 2 show ?thesis by blast
qed

text \<open>
  The claim as the specification words it fails: on 2026-11-03, with an interval of
  500000 hours (about 57 years) and a record without timestamp, the answer is \<open>False\<close>.
\<close>

theorem missing_timestamp_blocks_counterexample:
  "last_check_file (example_files (Holds NoEntry) Absent) = Holds NoEntry
   \<and> \<not> should_check_for_updates example_now (example_checker ''candor-cdp'' ''1.0.0'' 500000)
     (example_files (Holds NoEntry) Absent)"
  by code_simp

text \<open>
  Claim C10. If the stored skip list has no duplicates, it has none after
  \<open>skip_version\<close>. A version already in the list leaves the files as they were; a new
  version is appended as the one new last entry of the stored list. Doing it twice is
  doing it once.
\<close>

theorem skip_version_keeps_distinct:
  assumes "distinct (load_skipped fs)"
  shows "distinct (load_skipped (skip_version release_info fs))
   \<and> (version release_info \<in> set (load_skipped fs) \<longrightarrow> skip_version release_info fs = fs)
   \<and> (version release_info \<notin> set (load_skipped fs) \<longrightarrow>
        skip_file (skip_version release_info fs) =
          Holds (load_skipped fs @ [version release_info]))
   \<and> skip_version release_info (skip_version release_info fs) = skip_version release_info fs"
  using assms by (auto simp: skip_version_def load_skipped_def Let_def split: json_file.splits)

theorem skip_version_keeps_distinct_witness:
  "distinct (load_skipped (example_files Absent (Holds [''1.1.0''])))
   \<and> skip_version (parse_release_info (stable_entry ''v1.1.0''))
        (example_files Absent (Holds [''1.1.0''])) =
      example_files Absent (Holds [''1.1.0''])
   \<and> version (parse_release_info (stable_entry ''v1.2.0''))
        \<notin> set (load_skipped (example_files Absent (Holds [''1.1.0''])))
   \<and> skip_file (skip_version (parse_release_info (stable_entry ''v1.2.0''))
        (example_files Absent (Holds [''1.1.0'']))) = Holds [''1.1.0'', ''1.2.0'']"
proof -
  have d: "distinct (load_skipped (example_files Absent (Holds [''1.1.0''])))"
    by code_simp
  have m: "version (parse_release_info (stable_entry ''v1.1.0''))
        \<in> set (load_skipped (example_files Absent (Holds [''1.1.0''])))"
    by code_simp
  have n: "version (parse_release_info (stable_entry ''v1.2.0''))
        \<notin> set (load_skipped (example_files Absent (Holds [''1.1.0''])))"
    by code_simp
  have l: "load_skipped (example_files Absent (Holds [''1.1.0'']))
        @ [version (parse_release_info (stable_entry ''v1.2.0''))] = [''1.1.0'', ''1.2.0'']"
    by code_simp
  from skip_version_keeps_distinct[OF d, of "parse_release_info (stable_entry ''v1.1.0'')"] m
  have 1: "skip_version (parse_release_info (stable_entry ''v1.1.0''))
        (example_files Absent (Holds [''1.1.0''])) =
      example_files Absent (Holds [''1.1.0''])"
    by blast
  from skip_version_keeps_distinct[OF d, of "parse_release_info (stable_entry ''v1.2.0'')"] n l
  have 2: "skip_file (skip_version (parse_release_info (stable_entry ''v1.2.0''))
        (example_files Absent (Holds [''1.1.0'']))) = Holds [''1.1.0'', ''1.2.0'']"
    by simp
  from d 1 n 2 show ?thesis by blast
qed

end
